theory Spec2Isabelle
  imports Main
begin

section \<open>Python values and the built-ins the converter calls\<close>

text \<open>
  The converter of \<^verbatim>\<open>src/app.py\<close> reads cell values of an openpyxl worksheet and
  assembles nested dictionaries. A cell value is \<^verbatim>\<open>None\<close>, a \<^verbatim>\<open>str\<close>, an \<^verbatim>\<open>int\<close>, a
  \<^verbatim>\<open>float\<close>, a \<^verbatim>\<open>bool\<close> or a \<^verbatim>\<open>datetime\<close>. Strings are lists of the code points
  below 256. A float is an IEEE double, held exactly: \<open>Finite s m e\<close> is
  \<open>(-1)\<^sup>s * m * 2\<^sup>e\<close> with \<open>m < 2\<^sup>5\<^sup>3\<close> and \<open>-1074 \<le> e \<le> 971\<close>
  (\<open>2\<^sup>5\<^sup>2 \<le> m\<close> unless \<open>e = -1074\<close>). The converter can observe of a datetime only
  that it is truthy, unequal to every number and string, and its \<^verbatim>\<open>str()\<close> text, so a
  datetime is carried by that text.
\<close>

datatype py_error = KeyError | ValueError | TypeError | OverflowError | ZeroDivisionError

datatype pyfloat = Finite bool nat int | Infinity bool | NaN

datatype cell = CNone | CStr string | CInt int | CFloat pyfloat | CBool bool | CDatetime string

datatype pyval = Atom cell | PList "pyval list" | PDict "(string \<times> pyval) list"

text \<open>Sequencing of steps that may raise: the first exception ends the computation.\<close>

definition then_e :: "py_error + 'a \<Rightarrow> ('a \<Rightarrow> py_error + 'b) \<Rightarrow> py_error + 'b" where
  "then_e r f = (case r of Inl e \<Rightarrow> Inl e | Inr v \<Rightarrow> f v)"

subsection \<open>Strings\<close>

text \<open>\<^verbatim>\<open>str.isspace\<close> on the code points below 256, and \<^verbatim>\<open>str.strip()\<close>.\<close>

definition isspace :: "char \<Rightarrow> bool" where
  "isspace c = (c \<in> set [CHR 0x09, CHR 0x0A, CHR 0x0B, CHR 0x0C, CHR 0x0D,
                          CHR 0x1C, CHR 0x1D, CHR 0x1E, CHR 0x1F, CHR 0x20, CHR 0x85, CHR 0xA0])"

definition strip :: "string \<Rightarrow> string" where
  "strip s = rev (dropWhile isspace (rev (dropWhile isspace s)))"

definition is_digit :: "char \<Rightarrow> bool" where
  "is_digit c = (c \<in> set ''0123456789'')"

definition digit_val :: "char \<Rightarrow> nat" where
  "digit_val c = of_char c - 48"

definition digit_char :: "nat \<Rightarrow> char" where
  "digit_char n = ''0123456789'' ! n"

fun digits10 :: "nat \<Rightarrow> string" where
  "digits10 n = (if n < 10 then [digit_char n] else digits10 (n div 10) @ [digit_char (n mod 10)])"

declare digits10.simps [simp del]

text \<open>\<^verbatim>\<open>str(i)\<close> of an int.\<close>

definition str_of_int :: "int \<Rightarrow> string" where
  "str_of_int i = (if i < 0 then CHR ''-'' # digits10 (nat (- i)) else digits10 (nat i))"

text \<open>
  The grammar \<^verbatim>\<open>digitpart ::= digit (["_"] digit)*\<close> of \<^verbatim>\<open>int()\<close> and \<^verbatim>\<open>float()\<close>: the
  digit values, or \<open>None\<close> when the text is not a digitpart.
\<close>

fun digitpart :: "string \<Rightarrow> nat list option" where
  "digitpart [] = None"
| "digitpart [c] = (if is_digit c then Some [digit_val c] else None)"
| "digitpart (c # d # cs) =
     (if is_digit c
      then (if d = CHR ''_'' then map_option (Cons (digit_val c)) (digitpart cs)
            else map_option (Cons (digit_val c)) (digitpart (d # cs)))
      else None)"

definition nat_of_digits :: "nat list \<Rightarrow> nat" where
  "nat_of_digits ds = foldl (\<lambda>a d. 10 * a + d) 0 ds"

text \<open>An optional sign in front of a text: whether it is \<^verbatim>\<open>-\<close>, and the rest.\<close>

fun split_sign :: "string \<Rightarrow> bool \<times> string" where
  "split_sign [] = (False, [])"
| "split_sign (c # cs) =
     (if c = CHR ''-'' then (True, cs) else if c = CHR ''+'' then (False, cs) else (False, c # cs))"

text \<open>\<^verbatim>\<open>int(s)\<close> of a string, base 10: \<^verbatim>\<open>ValueError\<close> when the text is not an integer.\<close>

definition int_of_str :: "string \<Rightarrow> py_error + int" where
  "int_of_str s =
     (case split_sign (strip s) of (neg, u) \<Rightarrow>
        (case digitpart u of
           None \<Rightarrow> Inl ValueError
         | Some ds \<Rightarrow> Inr (if neg then - int (nat_of_digits ds) else int (nat_of_digits ds))))"

subsection \<open>Floats\<close>

text \<open>The number of binary digits of a natural number (\<^verbatim>\<open>int.bit_length\<close>).\<close>

fun bit_length :: "nat \<Rightarrow> nat" where
  "bit_length n = (if n = 0 then 0 else Suc (bit_length (n div 2)))"

declare bit_length.simps [simp del]

text \<open>\<open>\<lfloor>log\<^sub>2 (n / d)\<rfloor>\<close> for positive \<open>n\<close> and \<open>d\<close>.\<close>

definition floor_log2 :: "nat \<Rightarrow> nat \<Rightarrow> int" where
  "floor_log2 n d =
     (let k = int (bit_length n) - int (bit_length d)
      in if (0 \<le> k \<and> d * 2 ^ nat k \<le> n) \<or> (k < 0 \<and> d \<le> n * 2 ^ nat (- k)) then k else k - 1)"

text \<open>\<open>n / d\<close> rounded to the nearest natural number, a tie to the even one.\<close>

definition round_half_even :: "nat \<Rightarrow> nat \<Rightarrow> nat" where
  "round_half_even n d =
     (let q = n div d; r = n mod d
      in if 2 * r < d then q else if d < 2 * r then q + 1 else if even q then q else q + 1)"

text \<open>
  The double nearest to \<open>(-1)\<^sup>s * n / d\<close> (round to nearest, ties to even), infinite
  when that is beyond the largest double. Every float the converter obtains from a
  text, an int or a division is rounded by this function.
\<close>

definition round_double :: "bool \<Rightarrow> nat \<Rightarrow> nat \<Rightarrow> pyfloat" where
  "round_double neg n d =
     (if n = 0 then Finite neg 0 (- 1074)
      else
        let e = max (floor_log2 n d - 52) (- 1074);
            m = (if 0 \<le> e then round_half_even n (d * 2 ^ nat e)
                 else round_half_even (n * 2 ^ nat (- e)) d);
            e' = (if m = 2 ^ 53 then e + 1 else e);
            m' = (if m = 2 ^ 53 then 2 ^ 52 else m)
        in if 971 < e' then Infinity neg else Finite neg m' e')"

text \<open>Lower case of an ASCII letter, for the case-insensitive \<^verbatim>\<open>inf\<close> and \<^verbatim>\<open>nan\<close>.\<close>

definition to_lower :: "char \<Rightarrow> char" where
  "to_lower c = (if 65 \<le> (of_char c :: nat) \<and> (of_char c :: nat) \<le> 90
                 then char_of ((of_char c :: nat) + 32) else c)"

text \<open>The text before the first character satisfying \<open>P\<close>, and the text after it if there is one.\<close>

definition split_at :: "(char \<Rightarrow> bool) \<Rightarrow> string \<Rightarrow> string \<times> string option" where
  "split_at P s =
     (case dropWhile (\<lambda>c. \<not> P c) s of
        [] \<Rightarrow> (s, None)
      | _ # r \<Rightarrow> (takeWhile (\<lambda>c. \<not> P c) s, Some r))"

text \<open>
  \<^verbatim>\<open>number ::= [digitpart] "." digitpart | digitpart ["."]\<close>: the digits before and
  after the point.
\<close>

definition float_number :: "string \<Rightarrow> (nat list \<times> nat list) option" where
  "float_number s =
     (case split_at (\<lambda>c. c = CHR ''.'') s of
        (ip, None) \<Rightarrow> map_option (\<lambda>ds. (ds, [])) (digitpart ip)
      | (ip, Some fp) \<Rightarrow>
          (if ip = [] then map_option (\<lambda>fs. ([], fs)) (digitpart fp)
           else if fp = [] then map_option (\<lambda>ds. (ds, [])) (digitpart ip)
           else (case (digitpart ip, digitpart fp) of
                   (Some ds, Some fs) \<Rightarrow> Some (ds, fs)
                 | _ \<Rightarrow> None)))"

text \<open>\<^verbatim>\<open>exponent ::= ("e" | "E") [sign] digitpart\<close>, the text after the letter.\<close>

definition float_exponent :: "string \<Rightarrow> int option" where
  "float_exponent s =
     (case split_sign s of (neg, u) \<Rightarrow>
        map_option (\<lambda>ds. if neg then - int (nat_of_digits ds) else int (nat_of_digits ds))
          (digitpart u))"

text \<open>
  \<^verbatim>\<open>float(s)\<close> of a string: surrounding whitespace is dropped, then an optional sign and
  \<^verbatim>\<open>inf\<close>, \<^verbatim>\<open>infinity\<close>, \<^verbatim>\<open>nan\<close> (in any case) or a decimal number with an optional
  exponent; \<^verbatim>\<open>ValueError\<close> for every other text.
\<close>

definition float_of_str :: "string \<Rightarrow> py_error + pyfloat" where
  "float_of_str s =
     (case split_sign (strip s) of (neg, u) \<Rightarrow>
        if map to_lower u = ''inf'' \<or> map to_lower u = ''infinity'' then Inr (Infinity neg)
        else if map to_lower u = ''nan'' then Inr NaN
        else
          (case split_at (\<lambda>c. c = CHR ''e'' \<or> c = CHR ''E'') u of (mt, et) \<Rightarrow>
             (case (float_number mt, case et of None \<Rightarrow> Some 0 | Some x \<Rightarrow> float_exponent x) of
                (Some (ds, fs), Some ex) \<Rightarrow>
                  (let n = nat_of_digits (ds @ fs); x = ex - int (length fs)
                   in Inr (if 0 \<le> x then round_double neg (n * 10 ^ nat x) 1
                           else round_double neg n (10 ^ nat (- x))))
              | _ \<Rightarrow> Inl ValueError)))"

text \<open>The conversion of an int to a float, as \<^verbatim>\<open>int / float\<close> does it.\<close>

definition float_of_int :: "int \<Rightarrow> py_error + pyfloat" where
  "float_of_int i =
     (case round_double (i < 0) (nat \<bar>i\<bar>) 1 of
        Infinity _ \<Rightarrow> Inl OverflowError
      | f \<Rightarrow> Inr f)"

text \<open>\<^verbatim>\<open>a / b\<close> of two floats.\<close>

fun float_div :: "pyfloat \<Rightarrow> pyfloat \<Rightarrow> py_error + pyfloat" where
  "float_div a (Finite t m' e') =
     (if m' = 0 then Inl ZeroDivisionError
      else case a of
        NaN \<Rightarrow> Inr NaN
      | Infinity s \<Rightarrow> Inr (Infinity (s \<noteq> t))
      | Finite s m e \<Rightarrow>
          Inr (if e' \<le> e then round_double (s \<noteq> t) (m * 2 ^ nat (e - e')) m'
               else round_double (s \<noteq> t) m (m' * 2 ^ nat (e' - e))))"
| "float_div a (Infinity t) =
     (case a of
        Finite s m e \<Rightarrow> Inr (Finite (s \<noteq> t) 0 (- 1074))
      | _ \<Rightarrow> Inr NaN)"
| "float_div a NaN = Inr NaN"

text \<open>\<^verbatim>\<open>int(f)\<close> of a float: truncation towards zero.\<close>

fun int_of_float :: "pyfloat \<Rightarrow> py_error + int" where
  "int_of_float NaN = Inl ValueError"
| "int_of_float (Infinity s) = Inl OverflowError"
| "int_of_float (Finite s m e) =
     (let a = (if 0 \<le> e then int m * 2 ^ nat e else int m div 2 ^ nat (- e))
      in Inr (if s then - a else a))"

text \<open>\<^verbatim>\<open>f == i\<close> of a float and an int, compared exactly.\<close>

fun float_eq_int :: "pyfloat \<Rightarrow> int \<Rightarrow> bool" where
  "float_eq_int (Finite s m e) i =
     (if 0 \<le> e then (if s then - 1 else 1) * (int m * 2 ^ nat e) = i
      else int m mod 2 ^ nat (- e) = 0 \<and> (if s then - 1 else 1) * (int m div 2 ^ nat (- e)) = i)"
| "float_eq_int _ i = False"

text \<open>\<^verbatim>\<open>f == g\<close> of two floats: a NaN equals nothing, the two zeros are equal.\<close>

fun float_eq :: "pyfloat \<Rightarrow> pyfloat \<Rightarrow> bool" where
  "float_eq (Finite s m e) (Finite t n k) = ((m = 0 \<and> n = 0) \<or> (s = t \<and> m = n \<and> e = k))"
| "float_eq (Infinity s) (Infinity t) = (s = t)"
| "float_eq _ _ = False"

text \<open>\<^verbatim>\<open>0 < f\<close> of a float.\<close>

fun float_pos :: "pyfloat \<Rightarrow> bool" where
  "float_pos (Finite s m e) = (\<not> s \<and> 0 < m)"
| "float_pos (Infinity s) = (\<not> s)"
| "float_pos NaN = False"

subsection \<open>Operations on cell values\<close>

text \<open>\<^verbatim>\<open>bool(v)\<close>: the value a condition \<^verbatim>\<open>if v\<close> or \<^verbatim>\<open>not v\<close> tests.\<close>

fun truthy :: "cell \<Rightarrow> bool" where
  "truthy CNone = False"
| "truthy (CStr s) = (s \<noteq> [])"
| "truthy (CInt i) = (i \<noteq> 0)"
| "truthy (CFloat (Finite s m e)) = (m \<noteq> 0)"
| "truthy (CFloat _) = True"
| "truthy (CBool b) = b"
| "truthy (CDatetime t) = True"

text \<open>\<^verbatim>\<open>v == w\<close>: numbers (bool included) compare by value, a string only equals a string.\<close>

fun py_eq :: "cell \<Rightarrow> cell \<Rightarrow> bool" where
  "py_eq CNone CNone = True"
| "py_eq (CStr s) (CStr t) = (s = t)"
| "py_eq (CInt i) (CInt j) = (i = j)"
| "py_eq (CInt i) (CBool b) = (i = (if b then 1 else 0))"
| "py_eq (CInt i) (CFloat f) = float_eq_int f i"
| "py_eq (CBool b) (CInt i) = (i = (if b then 1 else 0))"
| "py_eq (CBool b) (CBool c) = (b = c)"
| "py_eq (CBool b) (CFloat f) = float_eq_int f (if b then 1 else 0)"
| "py_eq (CFloat f) (CInt i) = float_eq_int f i"
| "py_eq (CFloat f) (CBool b) = float_eq_int f (if b then 1 else 0)"
| "py_eq (CFloat f) (CFloat g) = float_eq f g"
| "py_eq (CDatetime s) (CDatetime t) = (s = t)"
| "py_eq _ _ = False"

text \<open>
  \<^verbatim>\<open>str(v)\<close>, which an f-string applies too. The digits Python prints for a float are
  not modelled: they are the parameter \<open>float_repr\<close> of every function that formats a
  value.
\<close>

fun py_str :: "(pyfloat \<Rightarrow> string) \<Rightarrow> cell \<Rightarrow> string" where
  "py_str float_repr CNone = ''None''"
| "py_str float_repr (CStr s) = s"
| "py_str float_repr (CInt i) = str_of_int i"
| "py_str float_repr (CFloat f) = float_repr f"
| "py_str float_repr (CBool b) = (if b then ''True'' else ''False'')"
| "py_str float_repr (CDatetime t) = t"

text \<open>\<^verbatim>\<open>int(v)\<close>.\<close>

fun py_int :: "cell \<Rightarrow> py_error + int" where
  "py_int CNone = Inl TypeError"
| "py_int (CStr s) = int_of_str s"
| "py_int (CInt i) = Inr i"
| "py_int (CFloat f) = int_of_float f"
| "py_int (CBool b) = Inr (if b then 1 else 0)"
| "py_int (CDatetime t) = Inl TypeError"

text \<open>\<^verbatim>\<open>v / w\<close> for a float \<open>w\<close>.\<close>

fun py_truediv :: "cell \<Rightarrow> pyfloat \<Rightarrow> py_error + cell" where
  "py_truediv (CInt i) w =
     then_e (float_of_int i) (\<lambda>f. then_e (float_div f w) (\<lambda>q. Inr (CFloat q)))"
| "py_truediv (CBool b) w =
     then_e (float_of_int (if b then 1 else 0)) (\<lambda>f. then_e (float_div f w) (\<lambda>q. Inr (CFloat q)))"
| "py_truediv (CFloat f) w = then_e (float_div f w) (\<lambda>q. Inr (CFloat q))"
| "py_truediv _ w = Inl TypeError"

text \<open>A dictionary with string keys: \<^verbatim>\<open>d[k]\<close> and \<^verbatim>\<open>d.get(k, default)\<close>.\<close>

definition dict_item :: "(string \<rightharpoonup> 'v) \<Rightarrow> string \<Rightarrow> py_error + 'v" where
  "dict_item d k = (case d k of None \<Rightarrow> Inl KeyError | Some v \<Rightarrow> Inr v)"

definition dict_get :: "(string \<rightharpoonup> 'v) \<Rightarrow> string \<Rightarrow> 'v \<Rightarrow> 'v" where
  "dict_get d k dflt = (case d k of None \<Rightarrow> dflt | Some v \<Rightarrow> v)"

text \<open>A dictionary whose keys are cell values, found by \<^verbatim>\<open>==\<close> as Python's hashing does.\<close>

fun lookup_key :: "(cell \<times> 'v) list \<Rightarrow> cell \<Rightarrow> 'v option" where
  "lookup_key [] k = None"
| "lookup_key ((k', v) # kvs) k = (if py_eq k' k then Some v else lookup_key kvs k)"

text \<open>Reading a nested value: a key of a dictionary, the elements of a list.\<close>

fun field :: "string \<Rightarrow> pyval \<Rightarrow> pyval option" where
  "field k (PDict kvs) = map_of kvs k"
| "field k _ = None"

fun elements :: "pyval \<Rightarrow> pyval list" where
  "elements (PList xs) = xs"
| "elements _ = []"

text \<open>A loop body that may raise, run over a list from left to right.\<close>

fun map_e :: "('a \<Rightarrow> py_error + 'b) \<Rightarrow> 'a list \<Rightarrow> py_error + 'b list" where
  "map_e f [] = Inr []"
| "map_e f (x # xs) = then_e (f x) (\<lambda>y. then_e (map_e f xs) (\<lambda>ys. Inr (y # ys)))"

section \<open>The loader: \<^verbatim>\<open>ExcelToJSONConverter.load_excel_data\<close>\<close>

text \<open>
  A worksheet is what the loader reads of it: \<^verbatim>\<open>ws.max_row\<close> and the value of the cell
  \<^verbatim>\<open>ws[f'{col}{row}']\<close> for a column letter and a row number. A workbook maps the sheet
  names to the sheets. The converter object holds \<^verbatim>\<open>self.buildings_data\<close> and
  \<^verbatim>\<open>self.customer_info\<close>; a record of a row is a dictionary from field names to values.
\<close>

record worksheet =
  max_row :: int
  cell_value :: "string \<Rightarrow> int \<Rightarrow> cell"

type_synonym workbook = "string \<rightharpoonup> worksheet"

type_synonym building_data = "string \<rightharpoonup> cell"

record converter =
  buildings_data :: "building_data list"
  customer_info :: "string \<rightharpoonup> cell"

text \<open>\<^verbatim>\<open>__init__\<close>.\<close>

definition new_converter :: converter where
  "new_converter = \<lparr>buildings_data = [], customer_info = Map.empty\<rparr>"

definition column_map :: "(string \<times> string) list" where
  "column_map =
     [(''customer'', ''B''), (''building_id'', ''C''), (''address'', ''D''), (''city'', ''E''),
      (''state'', ''F''), (''zip'', ''G''), (''building_type'', ''I''), (''total_sq_ft'', ''J''),
      (''cleanable_sq_ft'', ''K''), (''alternate_productivity'', ''M''),
      (''sun'', ''R''), (''mon'', ''S''), (''tue'', ''T''), (''wed'', ''U''),
      (''thu'', ''V''), (''fri'', ''W''), (''sat'', ''X''),
      (''additional_costs'', ''AB''),
      (''equipment_rental_1'', ''AH''), (''contract_terms_1'', ''AI''),
      (''equipment_rental_2'', ''AJ''), (''contract_terms_2'', ''AK''),
      (''wage_adjustment'', ''AO''),
      (''dp_sun'', ''AQ''), (''dp_mon'', ''AR''), (''dp_tue'', ''AS''), (''dp_wed'', ''AT''),
      (''dp_thu'', ''AU''), (''dp_fri'', ''AV''), (''dp_sat'', ''AW''),
      (''sup_sun'', ''AZ''), (''sup_mon'', ''BA''), (''sup_tue'', ''BB''), (''sup_wed'', ''BC''),
      (''sup_thu'', ''BD''), (''sup_fri'', ''BE''), (''sup_sat'', ''BF'')]"

text \<open>The fields a missing cell leaves as the empty string (line 107).\<close>

definition string_fields :: "string list" where
  "string_fields =
     [''customer'', ''building_id'', ''address'', ''city'', ''state'', ''building_type'']"

definition numeric_fields :: "string list" where
  "numeric_fields =
     [''cleanable_sq_ft'', ''total_sq_ft'', ''zip'', ''alternate_productivity'',
      ''sun'', ''mon'', ''tue'', ''wed'', ''thu'', ''fri'', ''sat'',
      ''additional_costs'', ''wage_adjustment'',
      ''dp_sun'', ''dp_mon'', ''dp_tue'', ''dp_wed'', ''dp_thu'', ''dp_fri'', ''dp_sat'',
      ''sup_sun'', ''sup_mon'', ''sup_tue'', ''sup_wed'', ''sup_thu'', ''sup_fri'', ''sup_sat'']"

text \<open>The clean-up of one cell value (lines 106 to 115).\<close>

definition clean_value :: "string \<Rightarrow> cell \<Rightarrow> cell" where
  "clean_value fld v =
     (if v = CNone then (if fld \<in> set string_fields then CStr [] else CInt 0)
      else case v of
        CStr s \<Rightarrow> (if fld = ''building_type'' then CStr s else CStr (strip s))
      | _ \<Rightarrow> v)"

text \<open>The loop over \<^verbatim>\<open>column_map.items()\<close> (lines 101 to 115).\<close>

definition extract_row :: "worksheet \<Rightarrow> int \<Rightarrow> building_data" where
  "extract_row ws row =
     fold (\<lambda>(fld, col) bd. bd(fld \<mapsto> clean_value fld (cell_value ws col row))) column_map Map.empty"

text \<open>
  The coercion of one numeric field (lines 125 to 131). \<^verbatim>\<open>except ValueError\<close> handles
  that exception only; any other one leaves the loop body.
\<close>

definition coerce_field :: "string \<Rightarrow> building_data \<Rightarrow> py_error + building_data" where
  "coerce_field fld bd =
     (case bd fld of
        None \<Rightarrow> Inr bd
      | Some v \<Rightarrow>
          if py_eq v (CStr []) then Inr (bd(fld \<mapsto> CInt 0))
          else case v of
            CStr s \<Rightarrow>
              (case float_of_str s of
                 Inr f \<Rightarrow> Inr (bd(fld \<mapsto> CFloat f))
               | Inl ValueError \<Rightarrow> Inr (bd(fld \<mapsto> CInt 0))
               | Inl e \<Rightarrow> Inl e)
          | _ \<Rightarrow> Inr bd)"

fun coerce_fields :: "string list \<Rightarrow> building_data \<Rightarrow> py_error + building_data" where
  "coerce_fields [] bd = Inr bd"
| "coerce_fields (fld # flds) bd = then_e (coerce_field fld bd) (coerce_fields flds)"

text \<open>The record of an accepted row (lines 98 to 131).\<close>

definition read_row :: "worksheet \<Rightarrow> int \<Rightarrow> py_error + building_data" where
  "read_row ws row = coerce_fields numeric_fields (extract_row ws row)"

text \<open>
  The \<^verbatim>\<open>while\<close> loop (lines 78 to 138) from a row on, with the records appended so far
  and \<^verbatim>\<open>customer_name\<close>: the exception that ended it, if one did, and the two variables.
\<close>

function scan_rows ::
  "(pyfloat \<Rightarrow> string) \<Rightarrow> worksheet \<Rightarrow> int \<Rightarrow> building_data list \<Rightarrow> cell
     \<Rightarrow> py_error option \<times> building_data list \<times> cell" where
  "scan_rows float_repr ws row bds customer_name =
     (if row \<le> max_row ws \<and> row \<le> 100 then
        (if \<not> truthy (cell_value ws ''B'' row)
         then scan_rows float_repr ws (row + 1) bds customer_name
         else if \<not> truthy (cell_value ws ''C'' row)
                 \<or> strip (py_str float_repr (cell_value ws ''C'' row)) = []
         then scan_rows float_repr ws (row + 1) bds customer_name
         else if \<not> truthy (cell_value ws ''K'' row) \<or> py_eq (cell_value ws ''K'' row) (CInt 0)
         then scan_rows float_repr ws (row + 1) bds customer_name
         else
           (case read_row ws row of
              Inl e \<Rightarrow> (Some e, bds, customer_name)
            | Inr bd \<Rightarrow>
                if customer_name = CNone
                then (case dict_item bd ''customer'' of
                        Inl e \<Rightarrow> (Some e, bds, customer_name)
                      | Inr c \<Rightarrow> scan_rows float_repr ws (row + 1) (bds @ [bd]) c)
                else scan_rows float_repr ws (row + 1) (bds @ [bd]) customer_name))
      else (None, bds, customer_name))"
  by pat_completeness auto
termination
  by (relation "measure (\<lambda>(float_repr, ws, row, bds, customer_name). nat (101 - row))") auto

declare scan_rows.simps [simp del]

text \<open>
  \<^verbatim>\<open>load_excel_data\<close> on a workbook that \<^verbatim>\<open>load_workbook\<close> has read: the returned flag and
  the converter afterwards. An exception inside the loop is caught by the outer
  \<^verbatim>\<open>except Exception\<close>, with the records appended until then left in place.
\<close>

definition load_excel_data :: "(pyfloat \<Rightarrow> string) \<Rightarrow> converter \<Rightarrow> workbook \<Rightarrow> bool \<times> converter" where
  "load_excel_data float_repr self wb =
     (case wb ''Janitorial Services'' of
        None \<Rightarrow> (False, self)
      | Some ws \<Rightarrow>
          (case scan_rows float_repr ws 4 [] CNone of
             (Some e, bds, customer_name) \<Rightarrow> (False, self\<lparr>buildings_data := bds\<rparr>)
           | (None, bds, customer_name) \<Rightarrow>
               (True,
                self\<lparr>buildings_data := bds,
                     customer_info :=
                       (if bds \<noteq> []
                        then [''customer_name'' \<mapsto>
                                (if truthy customer_name then customer_name
                                 else CStr ''Unknown Customer'')]
                        else customer_info self)\<rparr>)))"

section \<open>The mapper: \<^verbatim>\<open>ExcelToJSONConverter.convert_to_api_json\<close>\<close>

definition contract_terms_map :: "(cell \<times> string) list" where
  "contract_terms_map =
     [(CStr ''12'', ''12''), (CStr ''24'', ''24''), (CStr ''36'', ''36''), (CStr ''60'', ''60''),
      (CInt 12, ''12''), (CInt 24, ''24''), (CInt 36, ''36''), (CInt 60, ''60'')]"

text \<open>\<^verbatim>\<open>contract_terms_map.get(term, '')\<close>.\<close>

definition contract_term :: "cell \<Rightarrow> string" where
  "contract_term term = (case lookup_key contract_terms_map term of None \<Rightarrow> [] | Some t \<Rightarrow> t)"

text \<open>One equipment slot (lines 174 to 178, and 179 to 183): no entry or one.\<close>

definition equipment_slot :: "building_data \<Rightarrow> string \<Rightarrow> string \<Rightarrow> py_error + pyval list" where
  "equipment_slot bd rental terms =
     (if truthy (dict_get bd rental CNone)
      then then_e (dict_item bd rental) (\<lambda>t.
             Inr [PDict [(''equipmentType'', Atom t),
                         (''contractTerm'', Atom (CStr (contract_term (dict_get bd terms (CStr [])))))]])
      else Inr [])"

definition equipment_of :: "building_data \<Rightarrow> py_error + pyval list" where
  "equipment_of bd =
     then_e (equipment_slot bd ''equipment_rental_1'' ''contract_terms_1'') (\<lambda>e1.
     then_e (equipment_slot bd ''equipment_rental_2'' ''contract_terms_2'') (\<lambda>e2.
     Inr (e1 @ e2)))"

text \<open>
  A dictionary of the seven weekdays, read from the fields with a prefix: \<^verbatim>\<open>dp_\<close> for
  the day porter hours, \<^verbatim>\<open>sup_\<close> for the supervisor hours, none for the schedule.
\<close>

definition week_block :: "building_data \<Rightarrow> string \<Rightarrow> pyval" where
  "week_block bd prefix =
     PDict [(''sunday'', Atom (dict_get bd (prefix @ ''sun'') (CInt 0))),
            (''monday'', Atom (dict_get bd (prefix @ ''mon'') (CInt 0))),
            (''tuesday'', Atom (dict_get bd (prefix @ ''tue'') (CInt 0))),
            (''wednesday'', Atom (dict_get bd (prefix @ ''wed'') (CInt 0))),
            (''thursday'', Atom (dict_get bd (prefix @ ''thu'') (CInt 0))),
            (''friday'', Atom (dict_get bd (prefix @ ''fri'') (CInt 0))),
            (''saturday'', Atom (dict_get bd (prefix @ ''sat'') (CInt 0)))]"

text \<open>Lines 208 to 212.\<close>

definition productivity_override_of :: "building_data \<Rightarrow> py_error + pyval" where
  "productivity_override_of bd =
     (if truthy (dict_get bd ''alternate_productivity'' CNone)
      then then_e (dict_item bd ''alternate_productivity'') (\<lambda>v. Inr (PDict [(''value'', Atom v)]))
      else Inr (PDict []))"

text \<open>The literal \<^verbatim>\<open>4.33\<close>: the double nearest to 433/100.\<close>

definition weeks_per_month :: pyfloat where
  "weeks_per_month = round_double False 433 100"

text \<open>Lines 215 to 217.\<close>

definition weekly_additional_costs_of :: "building_data \<Rightarrow> py_error + cell" where
  "weekly_additional_costs_of bd =
     (let monthly_additional_costs = dict_get bd ''additional_costs'' (CInt 0)
      in if float_pos weeks_per_month then py_truediv monthly_additional_costs weeks_per_month
         else Inr (CInt 0))"

text \<open>Line 233.\<close>

definition postal_code_of :: "cell \<Rightarrow> py_error + cell" where
  "postal_code_of zip_value =
     (if truthy zip_value then then_e (py_int zip_value) (\<lambda>i. Inr (CStr (str_of_int i))) else Inr (CStr []))"

text \<open>The body of the loop over \<^verbatim>\<open>self.buildings_data\<close> (lines 166 to 270): one building.\<close>

definition make_building :: "(pyfloat \<Rightarrow> string) \<Rightarrow> cell \<Rightarrow> building_data \<Rightarrow> py_error + pyval" where
  "make_building float_repr customer_name bd =
     then_e (equipment_of bd) (\<lambda>equipment.
     then_e (productivity_override_of bd) (\<lambda>productivity_override.
     then_e (weekly_additional_costs_of bd) (\<lambda>weekly_additional_costs.
     then_e (dict_item bd ''building_id'') (\<lambda>building_id.
     then_e (dict_item bd ''building_type'') (\<lambda>building_type.
     then_e (dict_item bd ''state'') (\<lambda>state.
     then_e (dict_item bd ''zip'') (\<lambda>zip_value.
     then_e (postal_code_of zip_value) (\<lambda>postal_code.
     then_e (dict_item bd ''address'') (\<lambda>address.
     then_e (dict_item bd ''city'') (\<lambda>city.
     then_e (dict_item bd ''cleanable_sq_ft'') (\<lambda>cleanable_sq_ft.
     Inr (PDict
       [(''buildingRecordId'', Atom (CStr (''BLDG_'' @ py_str float_repr building_id))),
        (''buildingId'', Atom (CStr (py_str float_repr building_id))),
        (''buildingName'',
           Atom (CStr (py_str float_repr customer_name @ '' - '' @ py_str float_repr building_id))),
        (''facilityType'', Atom building_type),
        (''location'', PDict
           [(''state'', Atom state),
            (''postalCode'', Atom postal_code),
            (''address'', Atom address),
            (''city'', Atom city),
            (''country'', Atom (CStr ''USA''))]),
        (''buildingDetails'', PDict
           [(''totalSquareFootage'', Atom (dict_get bd ''total_sq_ft'' (CInt 0))),
            (''cleanableSquareFootage'', Atom cleanable_sq_ft)]),
        (''services'', PList
           [PDict
              [(''lineItemObjectId'', Atom (CStr (''LINE_'' @ py_str float_repr building_id))),
               (''serviceType'', Atom (CStr ''RJS'')),
               (''serviceFrequency'', Atom (CStr ''weekly'')),
               (''schedule'', week_block bd []),
               (''inputs'', PList
                  [PDict [(''itemName'', Atom (CStr ''cleanableSquareFootage'')),
                          (''itemValue'', Atom cleanable_sq_ft)]]),
               (''productivityOverride'', productivity_override),
               (''costAdjustments'', PDict
                  [(''hourlyWageAdjustment'', Atom (CInt 0)),
                   (''weeklyAdditionalCosts'', Atom weekly_additional_costs)]),
               (''equipment'', PList equipment),
               (''dayporterHours'', week_block bd ''dp_''),
               (''dayporterHourlyWageAdjustment'', Atom (dict_get bd ''wage_adjustment'' (CInt 0))),
               (''supervisorHours'', week_block bd ''sup_'')]])]))))))))))))"

text \<open>
  \<^verbatim>\<open>convert_to_api_json\<close>: the exception raised, \<^verbatim>\<open>None\<close>, or the document. \<open>now\<close> is the
  text \<^verbatim>\<open>datetime.now().strftime('%Y%m%d_%H%M%S')\<close>.
\<close>

definition convert_to_api_json ::
  "(pyfloat \<Rightarrow> string) \<Rightarrow> string \<Rightarrow> converter \<Rightarrow> py_error + pyval option" where
  "convert_to_api_json float_repr now self =
     (if buildings_data self = [] then Inr None
      else
        let customer_name = dict_get (customer_info self) ''customer_name'' (CStr ''Unknown Customer'')
        in then_e (map_e (make_building float_repr customer_name) (buildings_data self)) (\<lambda>buildings.
           Inr (Some (PDict
             [(''dealRecordId'',
                 Atom (CStr (''DEAL_'' @ py_str float_repr customer_name @ ''_'' @ now))),
              (''customerRecordId'', Atom (CStr (''CUST_'' @ py_str float_repr customer_name))),
              (''buildings'', PList buildings)]))))"

text \<open>The one service of a building, and the buildings of a document.\<close>

definition service_of :: "pyval \<Rightarrow> pyval option" where
  "service_of building =
     (case field ''services'' building of Some (PList [service]) \<Rightarrow> Some service | _ \<Rightarrow> None)"

definition buildings_of :: "pyval \<Rightarrow> pyval list" where
  "buildings_of doc = (case field ''buildings'' doc of Some bs \<Rightarrow> elements bs | None \<Rightarrow> [])"

section \<open>Notions the statements use\<close>

text \<open>
  What the coercion of lines 125 to 131 leaves of a cleaned value: a string becomes the
  float it parses to, or 0.
\<close>

definition coerced :: "cell \<Rightarrow> cell" where
  "coerced v = (case v of CStr s \<Rightarrow> (case float_of_str s of Inr f \<Rightarrow> CFloat f | Inl e \<Rightarrow> CInt 0) | _ \<Rightarrow> v)"

text \<open>
  The three guards of lines 82 to 96, negated: the rows for which the loop reaches
  the extraction.
\<close>

definition row_accepted :: "(pyfloat \<Rightarrow> string) \<Rightarrow> worksheet \<Rightarrow> int \<Rightarrow> bool" where
  "row_accepted float_repr ws row \<longleftrightarrow>
     truthy (cell_value ws ''B'' row)
     \<and> truthy (cell_value ws ''C'' row)
     \<and> strip (py_str float_repr (cell_value ws ''C'' row)) \<noteq> []
     \<and> truthy (cell_value ws ''K'' row)
     \<and> \<not> py_eq (cell_value ws ''K'' row) (CInt 0)"

section \<open>Examples\<close>

text \<open>
  The examples format no float: they are run with a fixed text for the digits of a float,
  and with a fixed time stamp.
\<close>

definition example_float_repr :: "pyfloat \<Rightarrow> string" where
  "example_float_repr f = ''1.5''"

text \<open>A record of one row, the converter holding it, and the document the mapper makes of it.\<close>

definition example_record :: building_data where
  "example_record =
     [''customer'' \<mapsto> CStr ''Acme'', ''building_id'' \<mapsto> CStr ''B1'',
      ''address'' \<mapsto> CStr ''1 Main St'', ''city'' \<mapsto> CStr ''Austin'', ''state'' \<mapsto> CStr ''TX'',
      ''zip'' \<mapsto> CInt 73301, ''building_type'' \<mapsto> CStr '' Office '',
      ''cleanable_sq_ft'' \<mapsto> CInt 5000, ''tue'' \<mapsto> CInt 2,
      ''additional_costs'' \<mapsto> CInt 433, ''wage_adjustment'' \<mapsto> CInt 3,
      ''equipment_rental_1'' \<mapsto> CStr ''Vacuum'', ''contract_terms_1'' \<mapsto> CInt 24]"

definition example_converter :: converter where
  "example_converter =
     \<lparr>buildings_data = [example_record], customer_info = [''customer_name'' \<mapsto> CStr ''Acme'']\<rparr>"

definition zero_week :: pyval where
  "zero_week =
     PDict [(''sunday'', Atom (CInt 0)), (''monday'', Atom (CInt 0)), (''tuesday'', Atom (CInt 0)),
            (''wednesday'', Atom (CInt 0)), (''thursday'', Atom (CInt 0)), (''friday'', Atom (CInt 0)),
            (''saturday'', Atom (CInt 0))]"

definition example_service :: pyval where
  "example_service =
     PDict
       [(''lineItemObjectId'', Atom (CStr ''LINE_B1'')),
        (''serviceType'', Atom (CStr ''RJS'')),
        (''serviceFrequency'', Atom (CStr ''weekly'')),
        (''schedule'',
           PDict [(''sunday'', Atom (CInt 0)), (''monday'', Atom (CInt 0)), (''tuesday'', Atom (CInt 2)),
                  (''wednesday'', Atom (CInt 0)), (''thursday'', Atom (CInt 0)),
                  (''friday'', Atom (CInt 0)), (''saturday'', Atom (CInt 0))]),
        (''inputs'', PList
           [PDict [(''itemName'', Atom (CStr ''cleanableSquareFootage'')),
                   (''itemValue'', Atom (CInt 5000))]]),
        (''productivityOverride'', PDict []),
        (''costAdjustments'', PDict
           [(''hourlyWageAdjustment'', Atom (CInt 0)),
            (''weeklyAdditionalCosts'', Atom (CFloat (Finite False (100 * 2 ^ 46) (- 46))))]),
        (''equipment'', PList
           [PDict [(''equipmentType'', Atom (CStr ''Vacuum'')),
                   (''contractTerm'', Atom (CStr ''24''))]]),
        (''dayporterHours'', zero_week),
        (''dayporterHourlyWageAdjustment'', Atom (CInt 3)),
        (''supervisorHours'', zero_week)]"

definition example_building :: pyval where
  "example_building =
     PDict
       [(''buildingRecordId'', Atom (CStr ''BLDG_B1'')),
        (''buildingId'', Atom (CStr ''B1'')),
        (''buildingName'', Atom (CStr ''Acme - B1'')),
        (''facilityType'', Atom (CStr '' Office '')),
        (''location'', PDict
           [(''state'', Atom (CStr ''TX'')),
            (''postalCode'', Atom (CStr ''73301'')),
            (''address'', Atom (CStr ''1 Main St'')),
            (''city'', Atom (CStr ''Austin'')),
            (''country'', Atom (CStr ''USA''))]),
        (''buildingDetails'', PDict
           [(''totalSquareFootage'', Atom (CInt 0)),
            (''cleanableSquareFootage'', Atom (CInt 5000))]),
        (''services'', PList [example_service])]"

definition example_document :: pyval where
  "example_document =
     PDict
       [(''dealRecordId'', Atom (CStr ''DEAL_Acme_20240101_120000'')),
        (''customerRecordId'', Atom (CStr ''CUST_Acme'')),
        (''buildings'', PList [example_building])]"

text \<open>
  The contract terms of claim C5, and what it calls the numeric or string form of a term
  \<open>n\<close>: a number equal to \<open>n\<close>, or the text \<^verbatim>\<open>str(n)\<close>.
\<close>

definition accepted_terms :: "int list" where
  "accepted_terms = [12, 24, 36, 60]"

definition term_form :: "int \<Rightarrow> cell \<Rightarrow> bool" where
  "term_form n t \<longleftrightarrow> py_eq (CInt n) t \<or> t = CStr (str_of_int n)"


text \<open>
  A sheet of two data rows. Row 4 is the scenario of the specification's section 8, with
  spaces around the building id and the building type and the text \<^verbatim>\<open>abc\<close> as zip; row 5
  has no building id.
\<close>

definition example_sheet :: worksheet where
  "example_sheet =
     \<lparr>max_row = 5,
      cell_value = (\<lambda>col row.
        if row = 4 then
          (if col = ''B'' then CStr ''Acme'' else if col = ''C'' then CStr '' B1 ''
           else if col = ''G'' then CStr ''abc'' else if col = ''I'' then CStr '' Office ''
           else if col = ''K'' then CInt 5000 else if col = ''T'' then CInt 2
           else if col = ''AB'' then CInt 433 else if col = ''AH'' then CStr ''Vacuum''
           else if col = ''AI'' then CInt 24 else CNone)
        else if row = 5 then
          (if col = ''B'' then CStr ''Acme'' else if col = ''K'' then CInt 5000 else CNone)
        else CNone)\<rparr>"


section \<open>The scan, the acceptance test and rows the mapper cannot convert\<close>



text \<open>
  The example sheet with 120 reported rows and a complete row put in row 3 and in row 101,
  the two rows next to the range of the scan.
\<close>

definition capped_sheet :: worksheet where
  "capped_sheet =
     \<lparr>max_row = 120,
      cell_value = (\<lambda>col row.
        if row = 3 \<or> row = 101 then
          (if col = ''B'' then CStr ''Acme'' else if col = ''C'' then CStr ''B2''
           else if col = ''K'' then CInt 700 else CNone)
        else cell_value example_sheet col row)\<rparr>"

text \<open>A sheet whose only data row has the text \<^verbatim>\<open>nan\<close> in the zip column.\<close>

definition nan_zip_sheet :: worksheet where
  "nan_zip_sheet =
     \<lparr>max_row = 4,
      cell_value = (\<lambda>col row.
        if row = 4 then
          (if col = ''B'' then CStr ''Acme'' else if col = ''C'' then CStr ''B1''
           else if col = ''G'' then CStr ''nan'' else if col = ''K'' then CInt 5000 else CNone)
        else CNone)\<rparr>"

section \<open>Facts about the built-ins and the loader\<close>

lemma then_e_Inl [simp]: "then_e (Inl e) f = Inl e"
  by (simp add: then_e_def)

lemma then_e_Inr [simp]: "then_e (Inr v) f = f v"
  by (simp add: then_e_def)

lemma then_e_eq_Inr: "then_e r f = Inr y \<longleftrightarrow> (\<exists>v. r = Inr v \<and> f v = Inr y)"
  by (cases r) simp_all

lemma float_of_str_error: "float_of_str s = Inl e \<Longrightarrow> e = ValueError"
  by (auto simp: float_of_str_def Let_def split: prod.splits if_splits option.splits)

lemma float_of_str_empty: "float_of_str [] = Inl ValueError"
  by (simp add: float_of_str_def strip_def split_at_def float_number_def)

lemma coerce_field_eq:
  "coerce_field fld bd = Inr (case bd fld of None \<Rightarrow> bd | Some v \<Rightarrow> bd(fld \<mapsto> coerced v))"
proof (cases "bd fld")
  case None
  then show ?thesis by (simp add: coerce_field_def)
next
  case (Some v)
  show ?thesis
  proof (cases v)
    case (CStr s)
    show ?thesis
    proof (cases "float_of_str s")
      case (Inl e)
      then have "e = ValueError" by (rule float_of_str_error)
      with Inl Some CStr show ?thesis
        by (auto simp: coerce_field_def coerced_def float_of_str_empty)
    next
      case (Inr f)
      with Some CStr show ?thesis
        by (auto simp: coerce_field_def coerced_def float_of_str_empty)
    qed
  qed (use Some in \<open>auto simp: coerce_field_def coerced_def fun_upd_idem\<close>)
qed

lemma coerced_idem: "coerced (coerced v) = coerced v"
  by (auto simp: coerced_def split: cell.splits sum.splits)

lemma coerce_fields_eq:
  "coerce_fields flds bd =
     Inr (\<lambda>k. if k \<in> set flds then map_option coerced (bd k) else bd k)"
proof (induction flds arbitrary: bd)
  case Nil
  show ?case by simp
next
  case (Cons fld flds)
  show ?case
    by (auto simp: coerce_field_eq Cons.IH coerced_idem fun_eq_iff split: option.splits)
qed

lemma fold_update_eq:
  "distinct (map fst xs) \<Longrightarrow>
   fold (\<lambda>(fld, col) bd. bd(fld \<mapsto> g fld col)) xs m k =
     (case map_of xs k of Some col \<Rightarrow> Some (g k col) | None \<Rightarrow> m k)"
proof (induction xs arbitrary: m)
  case Nil
  show ?case by simp
next
  case (Cons x xs)
  obtain f c where x: "x = (f, c)" by (cases x)
  from Cons.prems x have nf: "f \<notin> fst ` set xs" and d: "distinct (map fst xs)" by auto
  from nf have "map_of xs f = None" by (simp add: map_of_eq_None_iff)
  with Cons.IH [OF d] x show ?case by (auto split: option.splits)
qed

lemma distinct_column_map: "distinct (map fst column_map)"
  by (simp add: column_map_def)

lemma extract_row_eq:
  "extract_row ws row k = map_option (\<lambda>col. clean_value k (cell_value ws col row)) (map_of column_map k)"
  unfolding extract_row_def
  by (simp add: fold_update_eq [OF distinct_column_map] split: option.splits)

lemma read_row_eq:
  "read_row ws row =
     Inr (\<lambda>k. case map_of column_map k of
                None \<Rightarrow> None
              | Some col \<Rightarrow>
                  Some (if k \<in> set numeric_fields then coerced (clean_value k (cell_value ws col row))
                        else clean_value k (cell_value ws col row)))"
  by (auto simp: read_row_def coerce_fields_eq extract_row_eq fun_eq_iff split: option.splits)

lemma read_row_Inr: "\<exists>bd. read_row ws row = Inr bd \<and> bd ''customer'' \<noteq> None"
  by (simp add: read_row_eq column_map_def)

lemma scan_rows_done:
  "\<not> (row \<le> max_row ws \<and> row \<le> 100) \<Longrightarrow> scan_rows fr ws row bds cn = (None, bds, cn)"
  by (subst scan_rows.simps) auto

lemma scan_rows_skip:
  "row \<le> max_row ws \<Longrightarrow> row \<le> 100 \<Longrightarrow> \<not> row_accepted fr ws row \<Longrightarrow>
   scan_rows fr ws row bds cn = scan_rows fr ws (row + 1) bds cn"
  by (subst scan_rows.simps) (auto simp: row_accepted_def)

lemma scan_rows_take:
  "row \<le> max_row ws \<Longrightarrow> row \<le> 100 \<Longrightarrow> row_accepted fr ws row \<Longrightarrow>
   read_row ws row = Inr bd \<Longrightarrow> bd ''customer'' = Some c \<Longrightarrow>
   scan_rows fr ws row bds cn =
     scan_rows fr ws (row + 1) (bds @ [bd]) (if cn = CNone then c else cn)"
  by (subst scan_rows.simps) (auto simp: row_accepted_def dict_item_def)

lemma scan_rows_eq:
  "\<exists>cn'. scan_rows fr ws row bds cn =
     (None, bds @ map (\<lambda>r. projr (read_row ws r))
                     (filter (row_accepted fr ws) [row..min (max_row ws) 100]), cn')"
proof (induction "nat (min (max_row ws) 100 + 1 - row)" arbitrary: row bds cn)
  case 0
  then have "\<not> (row \<le> max_row ws \<and> row \<le> 100)" and "[row..min (max_row ws) 100] = []"
    by auto
  then show ?case by (simp add: scan_rows_done)
next
  case (Suc n)
  then have le: "row \<le> max_row ws" "row \<le> 100" by auto
  then have up: "[row..min (max_row ws) 100] = row # [row + 1..min (max_row ws) 100]"
    by (simp add: upto_rec1)
  from Suc.hyps(2) have n: "n = nat (min (max_row ws) 100 + 1 - (row + 1))" by auto
  show ?case
  proof (cases "row_accepted fr ws row")
    case False
    with Suc.hyps(1) [OF n, of bds cn] le up show ?thesis
      by (simp add: scan_rows_skip)
  next
    case True
    obtain bd c where bd: "read_row ws row = Inr bd" "bd ''customer'' = Some c"
      using read_row_Inr by blast
    from Suc.hyps(1) [OF n, of "bds @ [bd]" "if cn = CNone then c else cn"] True le up bd
    show ?thesis
      by (simp add: scan_rows_take)
  qed
qed

lemma load_excel_data_eq:
  assumes "wb ''Janitorial Services'' = Some ws"
  shows "fst (load_excel_data fr self wb) = True"
    and "buildings_data (snd (load_excel_data fr self wb)) =
           map (\<lambda>r. projr (read_row ws r)) (filter (row_accepted fr ws) [4..min (max_row ws) 100])"
proof -
  obtain cn' where "scan_rows fr ws 4 [] CNone =
     (None, [] @ map (\<lambda>r. projr (read_row ws r))
                     (filter (row_accepted fr ws) [4..min (max_row ws) 100]), cn')"
    using scan_rows_eq by blast
  with assms show "fst (load_excel_data fr self wb) = True"
    and "buildings_data (snd (load_excel_data fr self wb)) =
           map (\<lambda>r. projr (read_row ws r)) (filter (row_accepted fr ws) [4..min (max_row ws) 100])"
    by (simp_all add: load_excel_data_def)
qed

section \<open>Facts about the mapper\<close>

lemma bit_length_numeral [simp]:
  "bit_length 0 = 0" "bit_length (Suc 0) = Suc 0"
  "bit_length (numeral (Num.Bit0 k)) = Suc (bit_length (numeral k))"
  "bit_length (numeral (Num.Bit1 k)) = Suc (bit_length (numeral k))"
  by (simp_all add: bit_length.simps [of 0] bit_length.simps [of "Suc 0"] bit_length.simps [of "numeral (Num.Bit0 k)"]
       bit_length.simps [of "numeral (Num.Bit1 k)"])

lemma weeks_per_month_eq: "weeks_per_month = Finite False 4875146596628562 (- 50)"
  by (simp add: weeks_per_month_def round_double_def floor_log2_def round_half_even_def Let_def)

lemma float_pos_weeks: "float_pos weeks_per_month"
  by (simp add: weeks_per_month_eq)

lemma float_of_int_433: "float_of_int 433 = Inr (Finite False (433 * 2 ^ 44) (- 44))"
  by (simp add: float_of_int_def round_double_def floor_log2_def round_half_even_def Let_def)

lemma truediv_433: "py_truediv (CInt 433) weeks_per_month = Inr (CFloat (Finite False (100 * 2 ^ 46) (- 46)))"
  by (simp add: float_of_int_433 weeks_per_month_eq round_double_def floor_log2_def round_half_even_def Let_def)

lemma digits10_73301: "str_of_int 73301 = ''73301''"
  by (simp add: str_of_int_def digits10.simps [of 73301] digits10.simps [of 7330] digits10.simps [of 733]
      digits10.simps [of 73] digits10.simps [of 7] digit_char_def)

lemma contract_term_24: "contract_term (CInt 24) = ''24''"
  by (simp add: contract_term_def contract_terms_map_def)

lemma make_building_InrE:
  assumes "make_building fr cn bd = Inr b"
  obtains equipment po w bid btype st zv pc addr cty csf where
    "equipment_of bd = Inr equipment"
    "productivity_override_of bd = Inr po"
    "weekly_additional_costs_of bd = Inr w"
    "bd ''building_id'' = Some bid"
    "bd ''building_type'' = Some btype"
    "bd ''state'' = Some st"
    "bd ''zip'' = Some zv"
    "postal_code_of zv = Inr pc"
    "bd ''address'' = Some addr"
    "bd ''city'' = Some cty"
    "bd ''cleanable_sq_ft'' = Some csf"
    "b = PDict
       [(''buildingRecordId'', Atom (CStr (''BLDG_'' @ py_str fr bid))),
        (''buildingId'', Atom (CStr (py_str fr bid))),
        (''buildingName'', Atom (CStr (py_str fr cn @ '' - '' @ py_str fr bid))),
        (''facilityType'', Atom btype),
        (''location'', PDict
           [(''state'', Atom st),
            (''postalCode'', Atom pc),
            (''address'', Atom addr),
            (''city'', Atom cty),
            (''country'', Atom (CStr ''USA''))]),
        (''buildingDetails'', PDict
           [(''totalSquareFootage'', Atom (dict_get bd ''total_sq_ft'' (CInt 0))),
            (''cleanableSquareFootage'', Atom csf)]),
        (''services'', PList
           [PDict
              [(''lineItemObjectId'', Atom (CStr (''LINE_'' @ py_str fr bid))),
               (''serviceType'', Atom (CStr ''RJS'')),
               (''serviceFrequency'', Atom (CStr ''weekly'')),
               (''schedule'', week_block bd []),
               (''inputs'', PList
                  [PDict [(''itemName'', Atom (CStr ''cleanableSquareFootage'')),
                          (''itemValue'', Atom csf)]]),
               (''productivityOverride'', po),
               (''costAdjustments'', PDict
                  [(''hourlyWageAdjustment'', Atom (CInt 0)),
                   (''weeklyAdditionalCosts'', Atom w)]),
               (''equipment'', PList equipment),
               (''dayporterHours'', week_block bd ''dp_''),
               (''dayporterHourlyWageAdjustment'', Atom (dict_get bd ''wage_adjustment'' (CInt 0))),
               (''supervisorHours'', week_block bd ''sup_'')]])]"
proof -
  from assms obtain equipment where 1: "equipment_of bd = Inr equipment"
    by (cases "equipment_of bd") (simp_all add: make_building_def)
  from assms 1 obtain po where 2: "productivity_override_of bd = Inr po"
    by (cases "productivity_override_of bd") (simp_all add: make_building_def)
  from assms 1 2 obtain w where 3: "weekly_additional_costs_of bd = Inr w"
    by (cases "weekly_additional_costs_of bd") (simp_all add: make_building_def)
  from assms 1 2 3 obtain bid where 4: "bd ''building_id'' = Some bid"
    by (cases "bd ''building_id''") (simp_all add: make_building_def dict_item_def)
  from assms 1 2 3 4 obtain btype where 5: "bd ''building_type'' = Some btype"
    by (cases "bd ''building_type''") (simp_all add: make_building_def dict_item_def)
  from assms 1 2 3 4 5 obtain st where 6: "bd ''state'' = Some st"
    by (cases "bd ''state''") (simp_all add: make_building_def dict_item_def)
  from assms 1 2 3 4 5 6 obtain zv where 7: "bd ''zip'' = Some zv"
    by (cases "bd ''zip''") (simp_all add: make_building_def dict_item_def)
  from assms 1 2 3 4 5 6 7 obtain pc where 8: "postal_code_of zv = Inr pc"
    by (cases "postal_code_of zv") (simp_all add: make_building_def dict_item_def)
  from assms 1 2 3 4 5 6 7 8 obtain addr where 9: "bd ''address'' = Some addr"
    by (cases "bd ''address''") (simp_all add: make_building_def dict_item_def)
  from assms 1 2 3 4 5 6 7 8 9 obtain cty where 10: "bd ''city'' = Some cty"
    by (cases "bd ''city''") (simp_all add: make_building_def dict_item_def)
  from assms 1 2 3 4 5 6 7 8 9 10 obtain csf where 11: "bd ''cleanable_sq_ft'' = Some csf"
    by (cases "bd ''cleanable_sq_ft''") (simp_all add: make_building_def dict_item_def)
  from assms 1 2 3 4 5 6 7 8 9 10 11 show thesis
    by (intro that [of equipment po w bid btype st zv pc addr cty csf])
       (simp_all add: make_building_def dict_item_def)
qed

lemma map_e_Inr:
  "map_e f xs = Inr ys \<Longrightarrow> length ys = length xs \<and> (\<forall>i < length xs. f (xs ! i) = Inr (ys ! i))"
proof (induction xs arbitrary: ys)
  case Nil
  then show ?case by simp
next
  case (Cons x xs)
  from Cons.prems obtain y where y: "f x = Inr y"
    by (cases "f x") simp_all
  with Cons.prems obtain zs where zs: "map_e f xs = Inr zs"
    by (cases "map_e f xs") simp_all
  with Cons.prems y have ys: "ys = y # zs" by simp
  from Cons.IH [OF zs] y ys show ?case
    by (auto simp: nth_Cons split: nat.splits)
qed

lemma convert_Some:
  assumes "convert_to_api_json fr now self = Inr (Some doc)"
  shows "buildings_data self \<noteq> []"
    and "map_e (make_building fr (dict_get (customer_info self) ''customer_name'' (CStr ''Unknown Customer'')))
           (buildings_data self) = Inr (buildings_of doc)"
proof -
  from assms show ne: "buildings_data self \<noteq> []"
    by (auto simp: convert_to_api_json_def)
  let ?f = "make_building fr (dict_get (customer_info self) ''customer_name'' (CStr ''Unknown Customer''))"
  from assms ne obtain bs where "map_e ?f (buildings_data self) = Inr bs"
    by (cases "map_e ?f (buildings_data self)") (simp_all add: convert_to_api_json_def Let_def)
  with assms ne show "map_e ?f (buildings_data self) = Inr (buildings_of doc)"
    by (auto simp: convert_to_api_json_def Let_def buildings_of_def)
qed

lemma convert_building:
  assumes "convert_to_api_json fr now self = Inr (Some doc)" and "i < length (buildings_data self)"
  shows "length (buildings_of doc) = length (buildings_data self)"
    and "make_building fr (dict_get (customer_info self) ''customer_name'' (CStr ''Unknown Customer''))
           (buildings_data self ! i) = Inr (buildings_of doc ! i)"
  using map_e_Inr [OF convert_Some(2) [OF assms(1)]] assms(2) by auto

lemma make_building_example:
  "make_building example_float_repr (CStr ''Acme'') example_record = Inr example_building"
  by (simp add: make_building_def equipment_of_def equipment_slot_def productivity_override_of_def
      weekly_additional_costs_of_def float_pos_weeks truediv_433 postal_code_of_def
      dict_item_def dict_get_def example_record_def example_building_def example_service_def
      zero_week_def week_block_def digits10_73301 contract_term_24 del: py_truediv.simps)

lemma convert_example:
  "convert_to_api_json example_float_repr ''20240101_120000'' example_converter =
     Inr (Some example_document)"
  by (simp add: convert_to_api_json_def example_converter_def dict_get_def make_building_example
      example_document_def)

lemma buildings_of_example: "buildings_of example_document = [example_building]"
  by (simp add: buildings_of_def example_document_def)

lemma service_of_example: "service_of example_building = Some example_service"
  by (simp add: service_of_def example_building_def)

lemma make_building_service:
  assumes "make_building fr cn bd = Inr b"
  shows "\<exists>service w equipment.
           service_of b = Some service
           \<and> weekly_additional_costs_of bd = Inr w
           \<and> equipment_of bd = Inr equipment
           \<and> field ''costAdjustments'' service =
               Some (PDict [(''hourlyWageAdjustment'', Atom (CInt 0)),
                            (''weeklyAdditionalCosts'', Atom w)])
           \<and> field ''equipment'' service = Some (PList equipment)"
  by (rule make_building_InrE [OF assms]) (simp add: service_of_def)

section \<open>Facts about contract terms, trimming and coercion\<close>

lemma digits10_small: "n < 10 \<Longrightarrow> digits10 n = [digit_char n]"
  by (simp add: digits10.simps [of n])

lemma digits10_large: "10 \<le> n \<Longrightarrow> digits10 n = digits10 (n div 10) @ [digit_char (n mod 10)]"
  by (simp add: digits10.simps [of n])

lemma str_of_int_terms:
  "str_of_int 12 = ''12''" "str_of_int 24 = ''24''" "str_of_int 36 = ''36''" "str_of_int 60 = ''60''"
  by (simp_all add: str_of_int_def digits10_small digits10_large digit_char_def)

lemma float_eq_int_unique: "float_eq_int f a \<Longrightarrow> float_eq_int f b \<Longrightarrow> a = b"
  by (cases f) (auto split: if_splits)

lemma equipment_slot_eq:
  "equipment_slot bd rental terms =
     Inr (if truthy (dict_get bd rental CNone)
          then [PDict [(''equipmentType'', Atom (dict_get bd rental CNone)),
                       (''contractTerm'', Atom (CStr (contract_term (dict_get bd terms (CStr [])))))]]
          else [])"
  by (cases "bd rental") (simp_all add: equipment_slot_def dict_get_def dict_item_def)

lemma contract_term_form:
  assumes "n \<in> set accepted_terms" and "term_form n t"
  shows "contract_term t = str_of_int n"
proof (cases t)
  case (CFloat f)
  with assms show ?thesis
    by (auto simp: accepted_terms_def term_form_def contract_term_def contract_terms_map_def
        str_of_int_terms dest: float_eq_int_unique)
qed (use assms in \<open>auto simp: accepted_terms_def term_form_def contract_term_def
      contract_terms_map_def str_of_int_terms split: if_splits\<close>)

lemma contract_term_other:
  assumes "\<forall>n \<in> set accepted_terms. \<not> term_form n t"
  shows "contract_term t = []"
  using assms
  by (cases t) (auto simp: accepted_terms_def term_form_def contract_term_def
      contract_terms_map_def str_of_int_terms split: if_splits)


lemma coerced_not_str: "coerced v \<noteq> CStr t"
  by (auto simp: coerced_def split: cell.splits sum.splits)




lemma coerced_num [simp]: "coerced (CInt i) = CInt i" "coerced CNone = CNone"
  "coerced (CFloat f) = CFloat f" "coerced (CBool b) = CBool b" "coerced (CDatetime d) = CDatetime d"
  by (simp_all add: coerced_def)

section \<open>Facts about the scan\<close>

lemma load_excel_data_records:
  assumes "wb ''Janitorial Services'' = Some ws"
  shows "map Inr (buildings_data (snd (load_excel_data fr self wb))) =
           map (read_row ws) (filter (row_accepted fr ws) [4..min (max_row ws) 100])"
proof -
  have "Inr (projr (read_row ws r)) = read_row ws r" for r
    by (simp add: read_row_eq)
  then show ?thesis
    using assms by (simp add: load_excel_data_eq(2) [where wb = wb and ws = ws] comp_def)
qed


lemma upto_4_4: "[4..4::int] = [4]"
  by (simp add: upto_rec1)

lemma read_row_cong:
  assumes "\<And>col. cell_value ws' col row = cell_value ws col row"
  shows "read_row ws' row = read_row ws row"
  by (auto simp: read_row_eq fun_eq_iff assms split: option.splits)

lemma row_accepted_cong:
  "(\<And>col. cell_value ws' col row = cell_value ws col row) \<Longrightarrow>
   row_accepted fr ws' row = row_accepted fr ws row"
  by (simp add: row_accepted_def)

lemma scan_rows_cong:
  assumes "max_row ws' = max_row ws"
    and "\<And>col r. row \<le> r \<Longrightarrow> r \<le> max_row ws \<Longrightarrow> r \<le> 100 \<Longrightarrow>
           cell_value ws' col r = cell_value ws col r"
  shows "scan_rows fr ws' row bds cn = scan_rows fr ws row bds cn"
  using assms
proof (induction "nat (min (max_row ws) 100 + 1 - row)" arbitrary: row bds cn)
  case 0
  then have "\<not> (row \<le> max_row ws \<and> row \<le> 100)" by auto
  with "0.prems"(1) show ?case by (simp add: scan_rows_done)
next
  case (Suc n)
  then have le: "row \<le> max_row ws" "row \<le> 100" by auto
  with Suc.prems(1) have le': "row \<le> max_row ws'" by simp
  from Suc.hyps(2) have n: "n = nat (min (max_row ws) 100 + 1 - (row + 1))" by auto
  have same: "cell_value ws' col row = cell_value ws col row" for col
    using Suc.prems(2) le by simp
  have IH: "scan_rows fr ws' (row + 1) bds' cn' = scan_rows fr ws (row + 1) bds' cn'" for bds' cn'
    using Suc.hyps(1) [OF n Suc.prems(1)] Suc.prems(2) by simp
  show ?case
  proof (cases "row_accepted fr ws row")
    case False
    then have "\<not> row_accepted fr ws' row" using row_accepted_cong [of ws' row ws] same by simp
    with False le le' IH show ?thesis by (simp add: scan_rows_skip)
  next
    case True
    then have acc': "row_accepted fr ws' row" using row_accepted_cong [of ws' row ws] same by simp
    obtain bd c where bd: "read_row ws row = Inr bd" "bd ''customer'' = Some c"
      using read_row_Inr by blast
    then have bd': "read_row ws' row = Inr bd" using read_row_cong [of ws' row ws] same by simp
    from True acc' le le' bd bd' IH show ?thesis
      by (simp add: scan_rows_take [where bd = bd and c = c])
  qed
qed

lemma nan_record:
  "projr (read_row nan_zip_sheet 4) ''equipment_rental_1'' = Some (CInt 0)"
  "projr (read_row nan_zip_sheet 4) ''equipment_rental_2'' = Some (CInt 0)"
  "projr (read_row nan_zip_sheet 4) ''alternate_productivity'' = Some (CInt 0)"
  "projr (read_row nan_zip_sheet 4) ''additional_costs'' = Some (CInt 0)"
  "projr (read_row nan_zip_sheet 4) ''building_id'' = Some (CStr ''B1'')"
  "projr (read_row nan_zip_sheet 4) ''building_type'' = Some (CStr [])"
  "projr (read_row nan_zip_sheet 4) ''state'' = Some (CStr [])"
  "projr (read_row nan_zip_sheet 4) ''zip'' = Some (CFloat NaN)"
  by (simp_all add: read_row_eq column_map_def numeric_fields_def nan_zip_sheet_def clean_value_def
      coerced_def float_of_str_def strip_def isspace_def to_lower_def string_fields_def)

lemma truediv_0: "py_truediv (CInt 0) weeks_per_month = Inr (CFloat (Finite False 0 (- 1074)))"
  by (simp add: float_of_int_def weeks_per_month_eq round_double_def)

lemma nan_record_raises:
  "make_building fr cn (projr (read_row nan_zip_sheet 4)) = Inl ValueError"
  by (simp add: make_building_def equipment_of_def equipment_slot_def productivity_override_of_def
      weekly_additional_costs_of_def float_pos_weeks truediv_0 postal_code_of_def
      dict_item_def dict_get_def nan_record del: py_truediv.simps)

section \<open>The claims\<close>



text \<open>
  Claim C6. In the document the mapper returns, the service of the building of each row
  has \<^verbatim>\<open>costAdjustments.hourlyWageAdjustment\<close> equal to the int 0, whatever the row holds,
  and \<^verbatim>\<open>dayporterHourlyWageAdjustment\<close> equal to the value of the row's
  \<^verbatim>\<open>wage_adjustment\<close> field (0 if the record has no such key; a loaded record has it).
\<close>

theorem wage_adjustment_only_for_day_porter:
  assumes "convert_to_api_json float_repr now self = Inr (Some doc)"
    and "i < length (buildings_data self)"
  shows "\<exists>service adjustments.
           service_of (buildings_of doc ! i) = Some service
           \<and> field ''costAdjustments'' service = Some adjustments
           \<and> field ''hourlyWageAdjustment'' adjustments = Some (Atom (CInt 0))
           \<and> field ''dayporterHourlyWageAdjustment'' service =
               Some (Atom (dict_get (buildings_data self ! i) ''wage_adjustment'' (CInt 0)))"
proof -
  from convert_building(2) [OF assms]
  show ?thesis
    by (elim make_building_InrE) (simp add: service_of_def)
qed

theorem wage_adjustment_only_for_day_porter_witness:
  "convert_to_api_json example_float_repr ''20240101_120000'' example_converter =
     Inr (Some example_document)
   \<and> (0::nat) < length (buildings_data example_converter)
   \<and> (\<exists>service adjustments.
         service_of (buildings_of example_document ! 0) = Some service
         \<and> field ''costAdjustments'' service = Some adjustments
         \<and> field ''hourlyWageAdjustment'' adjustments = Some (Atom (CInt 0))
         \<and> field ''dayporterHourlyWageAdjustment'' service = Some (Atom (CInt 3)))"
  using wage_adjustment_only_for_day_porter [OF convert_example, of 0] convert_example
  by (simp add: example_converter_def example_record_def dict_get_def)



text \<open>
  Claim C8. If \<^verbatim>\<open>self.buildings_data\<close> is empty, \<^verbatim>\<open>convert_to_api_json\<close> returns \<^verbatim>\<open>None\<close>
  and no document. Whenever it returns a document, the rows were not empty and the
  \<^verbatim>\<open>buildings\<close> array of the document is not empty: a document with zero buildings is
  never returned, so the empty result cannot be taken for one.
\<close>

theorem empty_rows_no_document:
  "(buildings_data self = [] \<longrightarrow> convert_to_api_json float_repr now self = Inr None)
   \<and> (\<forall>doc. convert_to_api_json float_repr now self = Inr (Some doc) \<longrightarrow>
         buildings_data self \<noteq> [] \<and> buildings_of doc \<noteq> [])"
proof (intro conjI allI impI)
  assume "buildings_data self = []"
  then show "convert_to_api_json float_repr now self = Inr None"
    by (simp add: convert_to_api_json_def)
next
  fix doc
  assume doc: "convert_to_api_json float_repr now self = Inr (Some doc)"
  then show ne: "buildings_data self \<noteq> []"
    by (rule convert_Some(1))
  from map_e_Inr [OF convert_Some(2) [OF doc]]
  have "length (buildings_of doc) = length (buildings_data self)" by simp
  with ne show "buildings_of doc \<noteq> []" by auto
qed

theorem empty_rows_no_document_witness:
  "buildings_data new_converter = []
   \<and> convert_to_api_json example_float_repr ''20240101_120000'' new_converter = Inr None
   \<and> convert_to_api_json example_float_repr ''20240101_120000'' example_converter =
       Inr (Some example_document)
   \<and> buildings_data example_converter \<noteq> []
   \<and> buildings_of example_document \<noteq> []"
  using empty_rows_no_document [of new_converter example_float_repr "''20240101_120000''"]
    empty_rows_no_document [of example_converter example_float_repr "''20240101_120000''"]
    convert_example
  by (simp add: new_converter_def)

text \<open>
  Claim C5. In the document the mapper returns, the \<^verbatim>\<open>equipment\<close> list of each row's
  service is the entry of slot 1 if \<^verbatim>\<open>equipment_rental_1\<close> is truthy, followed by the entry
  of slot 2 if \<^verbatim>\<open>equipment_rental_2\<close> is truthy, each slot on its own. An entry carries the
  equipment type as it is and the contract term mapped by \<open>contract_term\<close>: a term that
  is the numeric or string form of 12, 24, 36 or 60 maps to the text of that number (36 and
  \<^verbatim>\<open>"36"\<close> to \<^verbatim>\<open>"36"\<close>), every other term (99) to the empty text, and no term raises.
\<close>

theorem equipment_entries_and_contract_terms:
  assumes "convert_to_api_json float_repr now self = Inr (Some doc)"
    and "i < length (buildings_data self)"
  shows "(\<exists>service.
           service_of (buildings_of doc ! i) = Some service
           \<and> field ''equipment'' service =
               Some (PList
                 ((if truthy (dict_get (buildings_data self ! i) ''equipment_rental_1'' CNone)
                   then [PDict
                     [(''equipmentType'',
                         Atom (dict_get (buildings_data self ! i) ''equipment_rental_1'' CNone)),
                      (''contractTerm'',
                         Atom (CStr (contract_term
                           (dict_get (buildings_data self ! i) ''contract_terms_1'' (CStr [])))))]]
                   else [])
                  @ (if truthy (dict_get (buildings_data self ! i) ''equipment_rental_2'' CNone)
                     then [PDict
                       [(''equipmentType'',
                           Atom (dict_get (buildings_data self ! i) ''equipment_rental_2'' CNone)),
                        (''contractTerm'',
                           Atom (CStr (contract_term
                             (dict_get (buildings_data self ! i) ''contract_terms_2'' (CStr [])))))]]
                     else []))))
         \<and> (\<forall>n \<in> set accepted_terms. \<forall>t. term_form n t \<longrightarrow> contract_term t = str_of_int n)
         \<and> (\<forall>t. (\<forall>n \<in> set accepted_terms. \<not> term_form n t) \<longrightarrow> contract_term t = [])
         \<and> contract_term (CInt 36) = ''36'' \<and> contract_term (CStr ''36'') = ''36''
         \<and> contract_term (CInt 99) = []"
proof -
  from make_building_service [OF convert_building(2) [OF assms]]
  obtain service equipment where s: "service_of (buildings_of doc ! i) = Some service"
    and e: "equipment_of (buildings_data self ! i) = Inr equipment"
    and f: "field ''equipment'' service = Some (PList equipment)"
    by blast
  from e have "equipment =
      (if truthy (dict_get (buildings_data self ! i) ''equipment_rental_1'' CNone)
       then [PDict
         [(''equipmentType'',
             Atom (dict_get (buildings_data self ! i) ''equipment_rental_1'' CNone)),
          (''contractTerm'',
             Atom (CStr (contract_term
               (dict_get (buildings_data self ! i) ''contract_terms_1'' (CStr [])))))]]
       else [])
      @ (if truthy (dict_get (buildings_data self ! i) ''equipment_rental_2'' CNone)
         then [PDict
           [(''equipmentType'',
               Atom (dict_get (buildings_data self ! i) ''equipment_rental_2'' CNone)),
            (''contractTerm'',
               Atom (CStr (contract_term
                 (dict_get (buildings_data self ! i) ''contract_terms_2'' (CStr [])))))]]
         else [])"
    by (auto simp: equipment_of_def equipment_slot_eq)
  with s f have 1: "\<exists>service.
           service_of (buildings_of doc ! i) = Some service
           \<and> field ''equipment'' service =
               Some (PList
                 ((if truthy (dict_get (buildings_data self ! i) ''equipment_rental_1'' CNone)
                   then [PDict
                     [(''equipmentType'',
                         Atom (dict_get (buildings_data self ! i) ''equipment_rental_1'' CNone)),
                      (''contractTerm'',
                         Atom (CStr (contract_term
                           (dict_get (buildings_data self ! i) ''contract_terms_1'' (CStr [])))))]]
                   else [])
                  @ (if truthy (dict_get (buildings_data self ! i) ''equipment_rental_2'' CNone)
                     then [PDict
                       [(''equipmentType'',
                           Atom (dict_get (buildings_data self ! i) ''equipment_rental_2'' CNone)),
                        (''contractTerm'',
                           Atom (CStr (contract_term
                             (dict_get (buildings_data self ! i) ''contract_terms_2'' (CStr [])))))]]
                     else [])))"
    by simp
  have 2: "\<forall>n \<in> set accepted_terms. \<forall>t. term_form n t \<longrightarrow> contract_term t = str_of_int n"
    using contract_term_form by blast
  have 3: "\<forall>t. (\<forall>n \<in> set accepted_terms. \<not> term_form n t) \<longrightarrow> contract_term t = []"
    using contract_term_other by blast
  have 4: "contract_term (CInt 36) = ''36'' \<and> contract_term (CStr ''36'') = ''36''
         \<and> contract_term (CInt 99) = []"
    by (simp add: contract_term_def contract_terms_map_def)
  from 1 2 3 4 show ?thesis by blast
qed

theorem equipment_entries_and_contract_terms_witness:
  "convert_to_api_json example_float_repr ''20240101_120000'' example_converter =
     Inr (Some example_document)
   \<and> (0::nat) < length (buildings_data example_converter)
   \<and> truthy (dict_get (buildings_data example_converter ! 0) ''equipment_rental_1'' CNone)
   \<and> \<not> truthy (dict_get (buildings_data example_converter ! 0) ''equipment_rental_2'' CNone)
   \<and> (\<exists>service.
         service_of (buildings_of example_document ! 0) = Some service
         \<and> field ''equipment'' service =
             Some (PList [PDict [(''equipmentType'', Atom (CStr ''Vacuum'')),
                                 (''contractTerm'', Atom (CStr ''24''))]]))
   \<and> 36 \<in> set accepted_terms \<and> term_form 36 (CStr ''36'') \<and> contract_term (CStr ''36'') = ''36''
   \<and> \<not> term_form 12 (CInt 99) \<and> \<not> term_form 24 (CInt 99) \<and> \<not> term_form 36 (CInt 99)
   \<and> \<not> term_form 60 (CInt 99) \<and> contract_term (CInt 99) = []"
  using equipment_entries_and_contract_terms [OF convert_example, of 0] convert_example
  by (simp add: example_converter_def example_record_def dict_get_def contract_term_24
      accepted_terms_def term_form_def str_of_int_terms)








text \<open>
  Claim C9. The loop is the total function \<open>scan_rows\<close>, whose row number grows towards
  101, so the loader returns on every workbook. What it returns depends on the reported last
  row and on the cells of the rows from 4 to the lesser of that row and 100 only: two sheets
  that agree there load to equal results. Every stored record is the record of a row of that
  range, each row at most once and in ascending order, so at most 97 records are stored.
\<close>

theorem scan_is_bounded:
  assumes "wb ''Janitorial Services'' = Some ws"
    and "wb' ''Janitorial Services'' = Some ws'"
    and "max_row ws' = max_row ws"
    and "\<forall>col row. 4 \<le> row \<and> row \<le> max_row ws \<and> row \<le> 100 \<longrightarrow>
           cell_value ws' col row = cell_value ws col row"
  shows "load_excel_data float_repr self wb' = load_excel_data float_repr self wb
         \<and> fst (load_excel_data float_repr self wb)
         \<and> (\<exists>rows. set rows \<subseteq> {row. 4 \<le> row \<and> row \<le> max_row ws \<and> row \<le> 100}
               \<and> distinct rows \<and> sorted rows
               \<and> map Inr (buildings_data (snd (load_excel_data float_repr self wb))) =
                   map (read_row ws) rows)
         \<and> length (buildings_data (snd (load_excel_data float_repr self wb))) \<le> 97"
proof -
  have "scan_rows float_repr ws' 4 [] CNone = scan_rows float_repr ws 4 [] CNone"
    using assms(3,4) by (intro scan_rows_cong) auto
  with assms(1,2) have 1: "load_excel_data float_repr self wb' = load_excel_data float_repr self wb"
    by (simp add: load_excel_data_def)
  have 2: "fst (load_excel_data float_repr self wb)"
    using assms(1) load_excel_data_eq(1) [where wb = wb and ws = ws] by simp
  let ?rows = "filter (row_accepted float_repr ws) [4..min (max_row ws) 100]"
  have r: "map Inr (buildings_data (snd (load_excel_data float_repr self wb))) =
             map (read_row ws) ?rows"
    using assms(1) by (rule load_excel_data_records)
  have 3: "set ?rows \<subseteq> {row. 4 \<le> row \<and> row \<le> max_row ws \<and> row \<le> 100}" by auto
  have 4: "distinct ?rows" "sorted ?rows" by (simp_all add: sorted_wrt_filter)
  from arg_cong [where f = length, OF r]
  have l: "length (buildings_data (snd (load_excel_data float_repr self wb))) = length ?rows"
    by (simp only: length_map)
  have "length ?rows \<le> length [4..min (max_row ws) 100]" by (rule length_filter_le)
  moreover have "length [4..min (max_row ws) 100] \<le> 97" by simp
  ultimately have 5: "length (buildings_data (snd (load_excel_data float_repr self wb))) \<le> 97"
    using l by linarith
  from 1 2 r 3 4 5 show ?thesis by blast
qed

theorem scan_is_bounded_witness:
  "max_row capped_sheet = max_row (example_sheet\<lparr>max_row := 120\<rparr>)
   \<and> cell_value capped_sheet ''B'' 3 \<noteq> cell_value (example_sheet\<lparr>max_row := 120\<rparr>) ''B'' 3
   \<and> cell_value capped_sheet ''B'' 101 \<noteq> cell_value (example_sheet\<lparr>max_row := 120\<rparr>) ''B'' 101
   \<and> load_excel_data example_float_repr new_converter [''Janitorial Services'' \<mapsto> capped_sheet] =
       load_excel_data example_float_repr new_converter
         [''Janitorial Services'' \<mapsto> example_sheet\<lparr>max_row := 120\<rparr>]
   \<and> fst (load_excel_data example_float_repr new_converter
         [''Janitorial Services'' \<mapsto> example_sheet\<lparr>max_row := 120\<rparr>])
   \<and> length (buildings_data (snd (load_excel_data example_float_repr new_converter
         [''Janitorial Services'' \<mapsto> example_sheet\<lparr>max_row := 120\<rparr>]))) \<le> 97"
  using scan_is_bounded [of "[''Janitorial Services'' \<mapsto> example_sheet\<lparr>max_row := 120\<rparr>]"
      "example_sheet\<lparr>max_row := 120\<rparr>" "[''Janitorial Services'' \<mapsto> capped_sheet]" capped_sheet
      example_float_repr new_converter]
  by (simp add: capped_sheet_def example_sheet_def)

text \<open>
  Claim C10 fails on a zip cell holding the text \<^verbatim>\<open>nan\<close>. The row is accepted and the load
  succeeds; \<^verbatim>\<open>float('nan')\<close> raises no \<^verbatim>\<open>ValueError\<close>, so the stored zip is the float NaN,
  a number indeed; NaN is truthy, so the mapper evaluates \<^verbatim>\<open>int(nan)\<close>, which raises
  \<^verbatim>\<open>ValueError\<close>, and no document is returned.
\<close>

theorem nan_zip_raises:
  "fst (load_excel_data example_float_repr new_converter [''Janitorial Services'' \<mapsto> nan_zip_sheet])
   \<and> map (\<lambda>bd. bd ''zip'')
         (buildings_data (snd (load_excel_data example_float_repr new_converter
            [''Janitorial Services'' \<mapsto> nan_zip_sheet]))) = [Some (CFloat NaN)]
   \<and> convert_to_api_json example_float_repr ''20240101_120000''
         (snd (load_excel_data example_float_repr new_converter
            [''Janitorial Services'' \<mapsto> nan_zip_sheet])) = Inl ValueError"
proof -
  let ?wb = "[''Janitorial Services'' \<mapsto> nan_zip_sheet]"
  have s: "?wb ''Janitorial Services'' = Some nan_zip_sheet" by simp
  have acc: "row_accepted example_float_repr nan_zip_sheet 4"
    by (simp add: row_accepted_def nan_zip_sheet_def strip_def isspace_def)
  have mr: "[4..min (max_row nan_zip_sheet) 100] = [4]"
    by (simp add: nan_zip_sheet_def upto_4_4)
  have b: "buildings_data (snd (load_excel_data example_float_repr new_converter ?wb)) =
          [projr (read_row nan_zip_sheet 4)]"
    using s
    by (simp only: load_excel_data_eq(2) [where wb = ?wb and ws = nan_zip_sheet] mr acc
        filter.simps list.map if_True)
  have 1: "fst (load_excel_data example_float_repr new_converter ?wb)"
    using s load_excel_data_eq(1) [where wb = ?wb and ws = nan_zip_sheet] by simp
  from b have 2: "map (\<lambda>bd. bd ''zip'')
         (buildings_data (snd (load_excel_data example_float_repr new_converter ?wb))) =
           [Some (CFloat NaN)]"
    by (simp add: nan_record)
  from b have 3: "convert_to_api_json example_float_repr ''20240101_120000''
         (snd (load_excel_data example_float_repr new_converter ?wb)) = Inl ValueError"
    by (simp add: convert_to_api_json_def Let_def nan_record_raises)
  from 1 2 3 show ?thesis by blast
qed

text \<open>
  The part of claim C10 that holds: in the record of a row no field of the numeric-field
  list is a string.
\<close>

theorem numeric_fields_hold_no_string:
  assumes "fld \<in> set numeric_fields"
  shows "\<exists>bd v. read_row ws row = Inr bd \<and> bd fld = Some v \<and> (\<forall>s. v \<noteq> CStr s)"
proof -
  from assms obtain col where col: "map_of column_map fld = Some col"
    by (auto simp: numeric_fields_def column_map_def)
  with assms show ?thesis
    by (simp add: read_row_eq coerced_not_str)
qed

theorem numeric_fields_hold_no_string_witness:
  "''zip'' \<in> set numeric_fields
   \<and> cell_value example_sheet ''G'' 4 = CStr ''abc''
   \<and> (\<exists>bd v. read_row example_sheet 4 = Inr bd \<and> bd ''zip'' = Some v \<and> (\<forall>s. v \<noteq> CStr s))"
  using numeric_fields_hold_no_string [of "''zip''" example_sheet 4]
  by (simp add: numeric_fields_def example_sheet_def)

text \<open>A falsy zip gives the empty postal code, and the conversion does not raise.\<close>

theorem falsy_zip_gives_empty_postal_code:
  assumes "\<not> truthy zip_value"
  shows "postal_code_of zip_value = Inr (CStr [])"
  using assms by (simp add: postal_code_of_def)

theorem falsy_zip_gives_empty_postal_code_witness:
  "\<not> truthy (CInt 0) \<and> postal_code_of (CInt 0) = Inr (CStr [])"
  using falsy_zip_gives_empty_postal_code [of "CInt 0"] by simp

end
